theory Spec2Isabelle
  imports Complex_Main "HOL-Library.Sublist"
begin

section \<open>Data model (db_init.py, create_tables)\<close>

text \<open>
  The two tables of \<^verbatim>\<open>db.sqlite\<close>. A table is the list of its rows in rowid order.
  \<^item> \<open>amount\<close> is a Python float and an SQLite REAL; it is modelled by the real number the
    float denotes (infinities and NaN are outside the model). Rendering a float as text is
    not modelled: the two renderings the program uses are fields of the environment.
  \<^item> \<open>txn_time\<close> is stored as the text \<^verbatim>\<open>YYYY-MM-DD HH:MM:SS\<close>. On such texts the string
    order of SQLite is the order of the instants, and \<^verbatim>\<open>datetime(t, '-5 minutes')\<close> is the
    instant 300 seconds earlier; a timestamp is modelled by its number of seconds.
  \<^item> \<open>status\<close> is a TEXT column; the program only ever writes \<^verbatim>\<open>'OK'\<close> and \<^verbatim>\<open>'FLAGGED'\<close>.
\<close>

datatype status = OK | FLAGGED

record txn =
  row_id :: nat
  transaction_id :: string
  user_id :: string
  amount :: real
  location :: string
  txn_time :: int
  txn_type :: string
  status :: status

record fraud_alert =
  fa_id :: nat
  fa_transaction_id :: string
  fa_user_id :: string
  fa_amount :: real
  fa_reason :: string
  fa_flagged_at :: int

text \<open>
  The database: both tables and the AUTOINCREMENT counters (table \<^verbatim>\<open>sqlite_sequence\<close>):
  the next row of a table gets the successor of the largest id the table ever used.
\<close>

record db =
  transactions :: "txn list"
  fraud_alerts :: "fraud_alert list"
  seq_transactions :: nat
  seq_fraud_alerts :: nat

definition empty_db :: db where
  "empty_db = \<lparr>transactions = [], fraud_alerts = [], seq_transactions = 0, seq_fraud_alerts = 0\<rparr>"

section \<open>The environment of a request\<close>

text \<open>
  Every \<^verbatim>\<open>cursor.execute\<close> and \<^verbatim>\<open>conn.commit\<close> of the three handlers can raise
  \<^verbatim>\<open>sqlite3.Error\<close> (the handlers catch it). The statements are named, and the environment
  says which of them the storage engine fails.
\<close>

datatype stmt =
    Add_select | Add_insert | Add_commit
  | Upd_update | Upd_commit_first | Upd_delete_alerts | Upd_insert_high | Upd_flag_high
  | Upd_count | Upd_insert_rapid | Upd_flag_rapid | Upd_commit_last
  | Del_alerts | Del_transaction | Del_commit

datatype sqlite_error = IntegrityError | OperationalError | ProgrammingError

record env =
  sql_text :: "real \<Rightarrow> string"
  py_str :: "real \<Rightarrow> string"
  sql_now :: int
  py_now :: int
  raises :: "stmt \<Rightarrow> bool"

text \<open>
  \<open>sql_text\<close> is the text SQLite's \<^verbatim>\<open>||\<close> gives a REAL, \<open>py_str\<close> the text of a float in a
  Python f-string, \<open>sql_now\<close> is \<^verbatim>\<open>datetime('now')\<close> and \<open>py_now\<close> is \<^verbatim>\<open>datetime.now()\<close>.
\<close>

definition bind_result :: "sqlite_error + 'a \<Rightarrow> ('a \<Rightarrow> sqlite_error + 'b) \<Rightarrow> sqlite_error + 'b" where
  "bind_result r f = (case r of Inl e \<Rightarrow> Inl e | Inr x \<Rightarrow> f x)"

definition exec :: "env \<Rightarrow> stmt \<Rightarrow> (db \<Rightarrow> sqlite_error + db) \<Rightarrow> db \<Rightarrow> sqlite_error + db" where
  "exec e s f d = (if raises e s then Inl OperationalError else f d)"

section \<open>Texts\<close>

text \<open>The decimal text of a count (\<^verbatim>\<open>COUNT(*)\<close> under \<^verbatim>\<open>||\<close>, an int in an f-string).\<close>

definition digit_char :: "nat \<Rightarrow> char" where
  "digit_char n = ''0123456789'' ! n"

function show_nat :: "nat \<Rightarrow> string" where
  "show_nat n = (if n < 10 then [digit_char n] else show_nat (n div 10) @ [digit_char (n mod 10)])"
  by pat_completeness auto
termination
  by (relation "measure (\<lambda>n. n)") auto

text \<open>The rupee sign U+20B9, as the three bytes of its UTF-8 encoding.\<close>

definition rupee :: string where
  "rupee = [CHR 0xE2, CHR 0x82, CHR 0xB9]"

definition high_reason :: "string \<Rightarrow> string" where
  "high_reason a = ''High amount transaction: '' @ rupee @ a @ '' exceeds '' @ rupee @ ''10,000 limit''"

definition rapid_reason :: "nat \<Rightarrow> string" where
  "rapid_reason c = ''Rapid transactions detected: '' @ show_nat c @ '' transactions within 5 minutes''"

text \<open>
  The table has no column for the rule: an alert's rule is read off the start of its reason.
\<close>

definition is_high_alert :: "fraud_alert \<Rightarrow> bool" where
  "is_high_alert a = prefix ''High amount transaction: '' (fa_reason a)"

definition is_rapid_alert :: "fraud_alert \<Rightarrow> bool" where
  "is_rapid_alert a = prefix ''Rapid transactions detected: '' (fa_reason a)"

section \<open>SQL statements\<close>

text \<open>\<^verbatim>\<open>INSERT INTO fraud_alerts (transaction_id, user_id, amount, reason) VALUES (?, ?, ?, ?)\<close>\<close>

definition alert_row :: "env \<Rightarrow> nat \<Rightarrow> string \<Rightarrow> string \<Rightarrow> real \<Rightarrow> string \<Rightarrow> fraud_alert" where
  "alert_row e n tid uid a r =
     \<lparr>fa_id = n, fa_transaction_id = tid, fa_user_id = uid, fa_amount = a, fa_reason = r,
      fa_flagged_at = sql_now e\<rparr>"

definition insert_alert :: "env \<Rightarrow> string \<Rightarrow> string \<Rightarrow> real \<Rightarrow> string \<Rightarrow> db \<Rightarrow> db" where
  "insert_alert e tid uid a r d =
     d\<lparr>fraud_alerts := fraud_alerts d @ [alert_row e (Suc (seq_fraud_alerts d)) tid uid a r],
       seq_fraud_alerts := Suc (seq_fraud_alerts d)\<rparr>"

text \<open>\<^verbatim>\<open>UPDATE transactions SET status = 'FLAGGED' WHERE transaction_id = ?\<close>\<close>

definition set_flagged :: "string \<Rightarrow> db \<Rightarrow> db" where
  "set_flagged tid d =
     d\<lparr>transactions :=
          map (\<lambda>r. if transaction_id r = tid then r\<lparr>status := FLAGGED\<rparr> else r) (transactions d)\<rparr>"

text \<open>\<^verbatim>\<open>DELETE FROM fraud_alerts WHERE transaction_id = ?\<close>\<close>

definition delete_alerts :: "string \<Rightarrow> db \<Rightarrow> db" where
  "delete_alerts tid d =
     d\<lparr>fraud_alerts := filter (\<lambda>a. fa_transaction_id a \<noteq> tid) (fraud_alerts d)\<rparr>"

text \<open>\<^verbatim>\<open>DELETE FROM transactions WHERE transaction_id = ?\<close>\<close>

definition delete_txn :: "string \<Rightarrow> db \<Rightarrow> db" where
  "delete_txn tid d =
     d\<lparr>transactions := filter (\<lambda>r. transaction_id r \<noteq> tid) (transactions d)\<rparr>"

text \<open>
  \<^verbatim>\<open>SELECT COUNT(*) FROM transactions WHERE user_id = ? AND
  txn_time >= datetime(?, '-5 minutes') AND txn_time <= ?\<close>
\<close>

definition count_window :: "db \<Rightarrow> string \<Rightarrow> int \<Rightarrow> nat" where
  "count_window d uid t =
     length (filter (\<lambda>r. user_id r = uid \<and> t - 300 \<le> txn_time r \<and> txn_time r \<le> t) (transactions d))"

text \<open>\<^verbatim>\<open>SELECT transaction_id FROM transactions WHERE transaction_id = ?\<close>, then \<^verbatim>\<open>fetchone()\<close>.\<close>

definition txn_exists :: "db \<Rightarrow> string \<Rightarrow> bool" where
  "txn_exists d tid = (\<exists>r \<in> set (transactions d). transaction_id r = tid)"

text \<open>
  \<^verbatim>\<open>UPDATE transactions SET user_id = ?, amount = ?, location = ?, txn_time = ?, txn_type = ?,
  status = 'OK' WHERE transaction_id = ?\<close>. The CHECK constraint of \<open>txn_type\<close> is tested on the
  rows the statement changes, so a statement that matches no row never fails it.
\<close>

definition update_txn ::
  "string \<Rightarrow> string \<Rightarrow> real \<Rightarrow> string \<Rightarrow> int \<Rightarrow> string \<Rightarrow> db \<Rightarrow> sqlite_error + db" where
  "update_txn tid uid a loc t ty d =
     (if txn_exists d tid \<and> ty \<noteq> ''Credit'' \<and> ty \<noteq> ''Debit'' then Inl IntegrityError
      else Inr (d\<lparr>transactions :=
        map (\<lambda>r. if transaction_id r = tid
                  then r\<lparr>user_id := uid, amount := a, location := loc, txn_time := t,
                         txn_type := ty, status := OK\<rparr>
                  else r) (transactions d)\<rparr>))"

section \<open>Triggers (db_init.py, create_triggers)\<close>

text \<open>
  \<^verbatim>\<open>trg_flag_high_amount\<close>: AFTER INSERT ON transactions, WHEN NEW.amount > 10000.
\<close>

definition trg_flag_high_amount :: "env \<Rightarrow> txn \<Rightarrow> db \<Rightarrow> db" where
  "trg_flag_high_amount e new d =
     (if amount new > 10000
      then set_flagged (transaction_id new)
             (insert_alert e (transaction_id new) (user_id new) (amount new)
                (high_reason (sql_text e (amount new))) d)
      else d)"

text \<open>
  \<^verbatim>\<open>trg_flag_rapid_txns\<close>: AFTER INSERT ON transactions. The aggregate SELECT has one row,
  which HAVING keeps when the count exceeds 5; the UPDATE repeats the count.
\<close>

definition trg_flag_rapid_txns :: "env \<Rightarrow> txn \<Rightarrow> db \<Rightarrow> db" where
  "trg_flag_rapid_txns e new d =
     (let c = count_window d (user_id new) (txn_time new);
          d1 = (if c > 5
                then insert_alert e (transaction_id new) (user_id new) (amount new) (rapid_reason c) d
                else d)
      in if count_window d1 (user_id new) (txn_time new) > 5
         then set_flagged (transaction_id new) d1 else d1)"

text \<open>
  \<^verbatim>\<open>INSERT INTO transactions (transaction_id, user_id, amount, location, txn_time, txn_type,
  status) VALUES (?, ?, ?, ?, ?, ?, 'OK')\<close>, with the UNIQUE and CHECK constraints of the table
  and both triggers. SQLite does not fix the order in which the two triggers fire; they
  are run here in the order of their creation.
\<close>

definition insert_txn ::
  "env \<Rightarrow> string \<Rightarrow> string \<Rightarrow> real \<Rightarrow> string \<Rightarrow> int \<Rightarrow> string \<Rightarrow> db \<Rightarrow> sqlite_error + db" where
  "insert_txn e tid uid a loc t ty d =
     (if txn_exists d tid then Inl IntegrityError
      else if ty \<noteq> ''Credit'' \<and> ty \<noteq> ''Debit'' then Inl IntegrityError
      else
        let new = \<lparr>row_id = Suc (seq_transactions d), transaction_id = tid, user_id = uid,
                   amount = a, location = loc, txn_time = t, txn_type = ty, status = OK\<rparr>;
            d1 = d\<lparr>transactions := transactions d @ [new],
                   seq_transactions := Suc (seq_transactions d)\<rparr>
        in Inr (trg_flag_rapid_txns e new (trg_flag_high_amount e new d1)))"

section \<open>The view (db_init.py, create_view)\<close>

text \<open>
  \<^verbatim>\<open>vw_suspicious\<close>: fraud_alerts LEFT JOIN transactions ON the transaction_id, newest alert
  first (SQLite leaves the order of alerts with one \<open>flagged_at\<close> open).
\<close>

definition vw_suspicious :: "db \<Rightarrow> (fraud_alert \<times> txn option) list" where
  "vw_suspicious d =
     concat (map (\<lambda>a. case filter (\<lambda>r. transaction_id r = fa_transaction_id a) (transactions d) of
                         [] \<Rightarrow> [(a, None)]
                       | rs \<Rightarrow> map (\<lambda>r. (a, Some r)) rs)
                 (rev (sort_key fa_flagged_at (fraud_alerts d))))"

section \<open>Requests and responses (app.py)\<close>

text \<open>
  A submitted form, after \<^verbatim>\<open>.strip()\<close>. The amount field is blank, or \<^verbatim>\<open>float()\<close> raises
  ValueError on it, or it parses. The time field is blank (\<open>None\<close>) or a timestamp.
\<close>

datatype amount_field = Blank | Malformed | Parsed real

record form =
  form_transaction_id :: string
  form_user_id :: string
  form_amount :: amount_field
  form_location :: string
  form_txn_time :: "int option"
  form_txn_type :: string

datatype request = GET | POST form

datatype message = Text string | Database_error sqlite_error

type_synonym flash = "message \<times> string"

datatype response =
    Render_add_transaction
  | Render_update_transaction txn
  | Redirect_view_transactions
  | Redirect_update_transaction string

section \<open>Handlers (app.py)\<close>

text \<open>
  A handler opens a connection on the stored database \<open>D\<close>, works on its copy, and closes
  the connection: it returns the flashed messages, the response and the database as last
  committed (\<^verbatim>\<open>rollback\<close> and \<^verbatim>\<open>close\<close> drop what was not committed).
\<close>

definition required_missing :: message where
  "required_missing = Text ''Please fill all required fields!''"

definition amount_not_positive :: message where
  "amount_not_positive = Text ''Amount must be greater than 0!''"

definition amount_invalid :: message where
  "amount_invalid = Text ''Invalid amount format!''"

definition id_exists :: message where
  "id_exists = Text ''Transaction ID already exists!''"

definition added_ok :: message where
  "added_ok = Text ''Transaction added successfully! Fraud detection triggered automatically.''"

definition updated_ok :: message where
  "updated_ok = Text ''Transaction updated successfully!''"

definition deleted_ok :: message where
  "deleted_ok = Text ''Transaction deleted successfully!''"

definition not_found :: message where
  "not_found = Text ''Transaction not found!''"

subsection \<open>add_transaction\<close>

text \<open>Lines 59 to 85: the connection part of the POST branch.\<close>

definition add_store ::
  "env \<Rightarrow> db \<Rightarrow> string \<Rightarrow> string \<Rightarrow> real \<Rightarrow> string \<Rightarrow> int \<Rightarrow> string \<Rightarrow> flash list \<times> response \<times> db" where
  "add_store e D tid uid a loc t ty =
     (if raises e Add_select
      then ([(Database_error OperationalError, ''error'')], Render_add_transaction, D)
      else if txn_exists D tid
      then ([(id_exists, ''error'')], Render_add_transaction, D)
      else case exec e Add_insert (insert_txn e tid uid a loc t ty) D of
             Inl IntegrityError \<Rightarrow> ([(id_exists, ''error'')], Render_add_transaction, D)
           | Inl err \<Rightarrow> ([(Database_error err, ''error'')], Render_add_transaction, D)
           | Inr w \<Rightarrow>
               if raises e Add_commit
               then ([(Database_error OperationalError, ''error'')], Render_add_transaction, D)
               else ([(added_ok, ''success'')], Redirect_view_transactions, w))"

definition add_transaction :: "env \<Rightarrow> db \<Rightarrow> request \<Rightarrow> flash list \<times> response \<times> db" where
  "add_transaction e D req =
     (case req of
        GET \<Rightarrow> ([], Render_add_transaction, D)
      | POST f \<Rightarrow>
          if form_transaction_id f = [] \<or> form_user_id f = [] \<or> form_amount f = Blank
             \<or> form_location f = [] \<or> form_txn_type f = []
          then ([(required_missing, ''error'')], Render_add_transaction, D)
          else (case form_amount f of
                  Blank \<Rightarrow> ([(required_missing, ''error'')], Render_add_transaction, D)
                | Malformed \<Rightarrow> ([(amount_invalid, ''error'')], Render_add_transaction, D)
                | Parsed a \<Rightarrow>
                    if a \<le> 0
                    then ([(amount_not_positive, ''error'')], Render_add_transaction, D)
                    else add_store e D (form_transaction_id f) (form_user_id f) a (form_location f)
                           (case form_txn_time f of None \<Rightarrow> py_now e | Some t \<Rightarrow> t)
                           (form_txn_type f)))"

subsection \<open>update_transaction\<close>

text \<open>
  Lines 146 to 176: the stale alerts of the transaction are deleted and the two rules are
  run again by the handler itself, on the working copy after the UPDATE.
\<close>

definition recheck_high :: "env \<Rightarrow> string \<Rightarrow> string \<Rightarrow> real \<Rightarrow> db \<Rightarrow> sqlite_error + db" where
  "recheck_high e tid uid a w =
     (if a > 10000
      then bind_result
             (exec e Upd_insert_high
                (\<lambda>d. Inr (insert_alert e tid uid a (high_reason (py_str e a)) d)) w)
             (exec e Upd_flag_high (\<lambda>d. Inr (set_flagged tid d)))
      else Inr w)"

definition recheck_rapid :: "env \<Rightarrow> string \<Rightarrow> string \<Rightarrow> real \<Rightarrow> int \<Rightarrow> db \<Rightarrow> sqlite_error + db" where
  "recheck_rapid e tid uid a t w =
     bind_result (exec e Upd_count Inr w)
       (\<lambda>w'. let c = count_window w' uid t
             in if c > 5
                then bind_result
                       (exec e Upd_insert_rapid
                          (\<lambda>d. Inr (insert_alert e tid uid a (rapid_reason c) d)) w')
                       (exec e Upd_flag_rapid (\<lambda>d. Inr (set_flagged tid d)))
                else Inr w')"

definition recheck :: "env \<Rightarrow> string \<Rightarrow> string \<Rightarrow> real \<Rightarrow> int \<Rightarrow> db \<Rightarrow> sqlite_error + db" where
  "recheck e tid uid a t w =
     bind_result (exec e Upd_delete_alerts (\<lambda>d. Inr (delete_alerts tid d)) w)
       (\<lambda>w1. bind_result (recheck_high e tid uid a w1) (recheck_rapid e tid uid a t))"

text \<open>
  After the \<^verbatim>\<open>except\<close> and \<^verbatim>\<open>finally\<close> clauses of the POST branch the handler runs on into
  the code of the GET branch, whose SELECT on the closed connection raises
  \<^verbatim>\<open>sqlite3.ProgrammingError\<close>, is caught there and redirects to the list.
\<close>

definition update_failed :: "sqlite_error \<Rightarrow> db \<Rightarrow> flash list \<times> response \<times> db" where
  "update_failed err C =
     ([(Database_error err, ''error''), (Database_error ProgrammingError, ''error'')],
      Redirect_view_transactions, C)"

text \<open>Lines 137 to 186: the connection part of the POST branch, with its two commits.\<close>

definition update_store ::
  "env \<Rightarrow> db \<Rightarrow> string \<Rightarrow> string \<Rightarrow> real \<Rightarrow> string \<Rightarrow> int \<Rightarrow> string \<Rightarrow> flash list \<times> response \<times> db" where
  "update_store e D tid uid a loc t ty =
     (case exec e Upd_update (update_txn tid uid a loc t ty) D of
        Inl err \<Rightarrow> update_failed err D
      | Inr w \<Rightarrow>
          if raises e Upd_commit_first then update_failed OperationalError D
          else (case recheck e tid uid a t w of
                  Inl err \<Rightarrow> update_failed err w
                | Inr w' \<Rightarrow>
                    if raises e Upd_commit_last then update_failed OperationalError w
                    else ([(updated_ok, ''success'')], Redirect_view_transactions, w')))"

definition update_transaction ::
  "env \<Rightarrow> db \<Rightarrow> string \<Rightarrow> request \<Rightarrow> flash list \<times> response \<times> db" where
  "update_transaction e D tid req =
     (case req of
        GET \<Rightarrow>
          (case filter (\<lambda>r. transaction_id r = tid) (transactions D) of
             [] \<Rightarrow> ([(not_found, ''error'')], Redirect_view_transactions, D)
           | r # _ \<Rightarrow> ([], Render_update_transaction r, D))
      | POST f \<Rightarrow>
          if form_user_id f = [] \<or> form_amount f = Blank \<or> form_location f = []
             \<or> form_txn_time f = None \<or> form_txn_type f = []
          then ([(required_missing, ''error'')], Redirect_update_transaction tid, D)
          else (case form_amount f of
                  Blank \<Rightarrow> ([(required_missing, ''error'')], Redirect_update_transaction tid, D)
                | Malformed \<Rightarrow> ([(amount_invalid, ''error'')], Redirect_update_transaction tid, D)
                | Parsed a \<Rightarrow>
                    if a \<le> 0
                    then ([(amount_not_positive, ''error'')], Redirect_update_transaction tid, D)
                    else (case form_txn_time f of
                            None \<Rightarrow> ([(required_missing, ''error'')], Redirect_update_transaction tid, D)
                          | Some t \<Rightarrow>
                              update_store e D tid (form_user_id f) a (form_location f) t
                                (form_txn_type f))))"

subsection \<open>delete_transaction\<close>

definition delete_transaction :: "env \<Rightarrow> db \<Rightarrow> string \<Rightarrow> flash list \<times> response \<times> db" where
  "delete_transaction e D tid =
     (case bind_result
             (bind_result (exec e Del_alerts (\<lambda>d. Inr (delete_alerts tid d)) D)
                (exec e Del_transaction (\<lambda>d. Inr (delete_txn tid d))))
             (exec e Del_commit Inr) of
        Inl err \<Rightarrow> ([(Database_error err, ''error'')], Redirect_view_transactions, D)
      | Inr w \<Rightarrow> ([(deleted_ok, ''success'')], Redirect_view_transactions, w))"

subsection \<open>fraud_alerts\<close>

text \<open>The rows of \<^verbatim>\<open>SELECT * FROM vw_suspicious ORDER BY flagged_at DESC\<close>.\<close>

definition fraud_alerts_page :: "db \<Rightarrow> (fraud_alert \<times> txn option) list" where
  "fraud_alerts_page d = vw_suspicious d"

section \<open>Scenarios and derived notions\<close>

text \<open>The text of a float whose value is a whole number below \<open>10\<^sup>1\<^sup>5\<close>: Python and SQLite both
  write it with one decimal zero (\<^verbatim>\<open>12000.0\<close>). Used for the environment of the scenarios only.\<close>

definition whole_text :: "real \<Rightarrow> string" where
  "whole_text x = show_nat (nat \<lfloor>x\<rfloor>) @ ''.0''"

text \<open>An environment in which no statement fails.\<close>

definition quiet_env :: env where
  "quiet_env = \<lparr>sql_text = whole_text, py_str = whole_text, sql_now = 0, py_now = 0,
                 raises = (\<lambda>s. False)\<rparr>"

text \<open>A filled form.\<close>

definition txn_form :: "string \<Rightarrow> string \<Rightarrow> real \<Rightarrow> int \<Rightarrow> form" where
  "txn_form tid uid a t =
     \<lparr>form_transaction_id = tid, form_user_id = uid, form_amount = Parsed a,
      form_location = ''Delhi'', form_txn_time = Some t, form_txn_type = ''Debit''\<rparr>"

text \<open>The alerts that reference a transaction.\<close>

definition alerts_for :: "db \<Rightarrow> string \<Rightarrow> fraud_alert list" where
  "alerts_for d tid = filter (\<lambda>x. fa_transaction_id x = tid) (fraud_alerts d)"

text \<open>The columns of an alert that the handlers supply.\<close>

definition alert_content :: "fraud_alert \<Rightarrow> string \<times> string \<times> real \<times> string" where
  "alert_content x = (fa_transaction_id x, fa_user_id x, fa_amount x, fa_reason x)"

text \<open>The validation both POST branches share: required fields present, amount parsed and positive.\<close>

definition valid_form :: "form \<Rightarrow> bool" where
  "valid_form f = (form_user_id f \<noteq> [] \<and> form_location f \<noteq> [] \<and> form_txn_type f \<noteq> []
     \<and> (case form_amount f of Parsed a \<Rightarrow> 0 < a | _ \<Rightarrow> False))"

text \<open>Scenario A: TXN001 with amount 12000 is added to the empty database.\<close>

definition store_a :: db where
  "store_a = snd (snd (add_transaction quiet_env empty_db (POST (txn_form ''TXN001'' ''USER001'' 12000 0))))"

text \<open>The store after TXN404, which was never added, is updated with amount 12000.\<close>

definition dangling_db :: db where
  "dangling_db = snd (snd (update_transaction quiet_env empty_db ''TXN404''
                             (POST (txn_form ''TXN404'' ''USER001'' 12000 0))))"

text \<open>Scenario C: TXN001 of scenario A is updated to amount 500.\<close>

definition store_c :: db where
  "store_c = snd (snd (update_transaction quiet_env store_a ''TXN001''
                         (POST (txn_form ''TXN001'' ''USER001'' 500 0))))"

text \<open>An environment in which exactly one statement fails.\<close>

definition fail_at :: "stmt \<Rightarrow> env" where
  "fail_at s = quiet_env\<lparr>raises := (\<lambda>x. x = s)\<rparr>"

text \<open>The high-amount alerts of a transaction.\<close>

definition high_alerts :: "db \<Rightarrow> string \<Rightarrow> fraud_alert list" where
  "high_alerts d tid = filter is_high_alert (alerts_for d tid)"

text \<open>What the high-amount rule requires of the store after a transaction with amount \<open>a\<close>, written
  \<open>txt\<close> in the reason, was processed.\<close>

definition high_amount_outcome :: "string \<Rightarrow> real \<Rightarrow> db \<Rightarrow> string \<Rightarrow> bool" where
  "high_amount_outcome txt a d tid =
     (if a > 10000
      then map (\<lambda>x. (fa_amount x, fa_reason x)) (high_alerts d tid) = [(a, high_reason txt)]
           \<and> (\<forall>r \<in> set (transactions d). transaction_id r = tid \<longrightarrow> status r = FLAGGED)
      else high_alerts d tid = [])"

section \<open>The statements and what they do\<close>

lemma count_window_cong: "map (\<lambda>r. (user_id r, txn_time r)) (transactions d') = map (\<lambda>r. (user_id r, txn_time r)) (transactions d) \<Longrightarrow> count_window d' uid t = count_window d uid t"
proof -
  assume h: "map (\<lambda>r. (user_id r, txn_time r)) (transactions d') = map (\<lambda>r. (user_id r, txn_time r)) (transactions d)"
  have "count_window d uid t = length (filter (\<lambda>p. fst p = uid \<and> t - 300 \<le> snd p \<and> snd p \<le> t) (map (\<lambda>r. (user_id r, txn_time r)) (transactions d)))" for d
    by (simp add: count_window_def filter_map o_def)
  then show ?thesis using h by (metis (no_types, lifting))
qed

lemma count_window_set_flagged [simp]: "count_window (set_flagged tid d) uid t = count_window d uid t"
  by (rule count_window_cong) (simp add: set_flagged_def)

lemma count_window_insert_alert [simp]: "count_window (insert_alert e tid u a r d) uid t = count_window d uid t"
  by (simp add: count_window_def insert_alert_def)

lemma count_window_delete_alerts [simp]: "count_window (delete_alerts tid d) uid t = count_window d uid t"
  by (simp add: count_window_def delete_alerts_def)

lemma recheck_high_Inr:
  "recheck_high e tid uid a w = Inr w' \<Longrightarrow>
     w' = (if a > 10000 then set_flagged tid (insert_alert e tid uid a (high_reason (py_str e a)) w) else w)"
  by (auto simp: recheck_high_def bind_result_def exec_def split: if_splits sum.splits)

lemma recheck_rapid_Inr:
  "recheck_rapid e tid uid a t w = Inr w' \<Longrightarrow>
     w' = (if count_window w uid t > 5 then set_flagged tid (insert_alert e tid uid a (rapid_reason (count_window w uid t)) w) else w)"
  by (auto simp: recheck_rapid_def bind_result_def exec_def Let_def split: if_splits sum.splits)

lemma recheck_Inr:
  assumes "recheck e tid uid a t w = Inr w'"
  shows "w' = (let w1 = delete_alerts tid w;
                  w2 = (if a > 10000 then set_flagged tid (insert_alert e tid uid a (high_reason (py_str e a)) w1) else w1)
              in if count_window w uid t > 5 then set_flagged tid (insert_alert e tid uid a (rapid_reason (count_window w uid t)) w2) else w2)"
proof -
  from assms obtain w1 w2 where
    1: "exec e Upd_delete_alerts (\<lambda>d. Inr (delete_alerts tid d)) w = Inr w1"
    and 2: "recheck_high e tid uid a w1 = Inr w2"
    and 3: "recheck_rapid e tid uid a t w2 = Inr w'"
    by (auto simp: recheck_def bind_result_def split: sum.splits)
  from 1 have w1: "w1 = delete_alerts tid w" by (auto simp: exec_def split: if_splits)
  note w2 = recheck_high_Inr[OF 2]
  have c: "count_window w2 uid t = count_window w uid t" by (simp add: w2 w1)
  show ?thesis using recheck_rapid_Inr[OF 3] unfolding c Let_def w2 w1 by simp
qed

lemmas msg_defs = required_missing_def amount_not_positive_def amount_invalid_def id_exists_def
  added_ok_def updated_ok_def deleted_ok_def not_found_def

lemma update_store_success:
  assumes "update_store e D tid uid a loc t ty = (fl, resp, D')" "(updated_ok, ''success'') \<in> set fl"
  shows "\<exists>w. update_txn tid uid a loc t ty D = Inr w \<and> recheck e tid uid a t w = Inr D'"
  using assms
  by (auto simp: update_store_def exec_def update_failed_def updated_ok_def split: if_splits sum.splits)

lemma update_transaction_success:
  assumes "update_transaction e D tid (POST f) = (fl, resp, D')" "(updated_ok, ''success'') \<in> set fl"
  shows "\<exists>a t. form_amount f = Parsed a \<and> 0 < a \<and> form_txn_time f = Some t \<and>
           update_store e D tid (form_user_id f) a (form_location f) t (form_txn_type f) = (fl, resp, D')"
  using assms
  by (auto simp: update_transaction_def msg_defs split: if_splits amount_field.splits option.splits)

lemma add_store_success:
  assumes "add_store e D tid uid a loc t ty = (fl, resp, D')" "(added_ok, ''success'') \<in> set fl"
  shows "\<not> txn_exists D tid \<and> insert_txn e tid uid a loc t ty D = Inr D'"
  using assms
  by (auto simp: add_store_def exec_def msg_defs split: if_splits sum.splits sqlite_error.splits)

lemma add_transaction_success:
  assumes "add_transaction e D (POST f) = (fl, resp, D')" "(added_ok, ''success'') \<in> set fl"
  shows "\<exists>a. form_amount f = Parsed a \<and> 0 < a \<and>
           add_store e D (form_transaction_id f) (form_user_id f) a (form_location f)
             (case form_txn_time f of None \<Rightarrow> py_now e | Some t \<Rightarrow> t) (form_txn_type f) = (fl, resp, D')"
  using assms
  by (auto simp: add_transaction_def msg_defs split: if_splits amount_field.splits)

lemma txn_exists_cong:
  assumes "map transaction_id (transactions d') = map transaction_id (transactions d)"
  shows "txn_exists d' tid = txn_exists d tid"
proof -
  from assms have "transaction_id ` set (transactions d') = transaction_id ` set (transactions d)"
    by (metis set_map)
  then show ?thesis unfolding txn_exists_def by (metis (no_types, lifting) image_iff)
qed

lemma update_txn_Inr:
  assumes "update_txn tid uid a loc t ty D = Inr w"
  shows "w = D\<lparr>transactions := map (\<lambda>r. if transaction_id r = tid
                  then r\<lparr>user_id := uid, amount := a, location := loc, txn_time := t,
                         txn_type := ty, status := OK\<rparr>
                  else r) (transactions D)\<rparr>"
proof (cases "txn_exists D tid \<and> ty \<noteq> ''Credit'' \<and> ty \<noteq> ''Debit''")
  case True
  then have "update_txn tid uid a loc t ty D = Inl IntegrityError"
    unfolding update_txn_def by simp
  with assms show ?thesis by simp
next
  case False
  then have "update_txn tid uid a loc t ty D = Inr (D\<lparr>transactions := map (\<lambda>r. if transaction_id r = tid
                  then r\<lparr>user_id := uid, amount := a, location := loc, txn_time := t,
                         txn_type := ty, status := OK\<rparr>
                  else r) (transactions D)\<rparr>)"
    unfolding update_txn_def by (simp only: if_False)
  with assms show ?thesis by simp
qed

lemma update_txn_exists:
  assumes "update_txn tid uid a loc t ty D = Inr w"
  shows "txn_exists w tid' = txn_exists D tid'"
  proof -
  have "map transaction_id (transactions w) = map transaction_id (transactions D)"
    unfolding update_txn_Inr[OF assms] by simp
  then have "transaction_id ` set (transactions w) = transaction_id ` set (transactions D)"
    by (metis set_map)
  then show ?thesis unfolding txn_exists_def by (metis (no_types, lifting) image_iff)
qed

lemma alert_row_sel [simp]:
  "fa_transaction_id (alert_row e n tid uid a r) = tid"
  "fa_user_id (alert_row e n tid uid a r) = uid"
  "fa_amount (alert_row e n tid uid a r) = a"
  "fa_reason (alert_row e n tid uid a r) = r"
  by (simp_all add: alert_row_def)

lemma recheck_alerts:
  assumes "recheck e tid uid a t w = Inr w'"
  shows "\<exists>m n. fraud_alerts w' = filter (\<lambda>x. fa_transaction_id x \<noteq> tid) (fraud_alerts w)
                  @ (if a > 10000 then [alert_row e m tid uid a (high_reason (py_str e a))] else [])
                  @ (if count_window w uid t > 5
                     then [alert_row e n tid uid a (rapid_reason (count_window w uid t))] else [])"
  unfolding recheck_Inr[OF assms] Let_def
  by (simp add: insert_alert_def set_flagged_def delete_alerts_def) blast

lemma recheck_transactions:
  assumes "recheck e tid uid a t w = Inr w'"
  shows "transactions w' =
           (if a > 10000 \<or> count_window w uid t > 5
            then map (\<lambda>r. if transaction_id r = tid then r\<lparr>status := FLAGGED\<rparr> else r) (transactions w)
            else transactions w)"
  unfolding recheck_Inr[OF assms] Let_def
  by (simp add: insert_alert_def set_flagged_def delete_alerts_def o_def)

lemma recheck_count:
  assumes "recheck e tid uid a t w = Inr w'"
  shows "count_window w' uid' t' = count_window w uid' t'"
  unfolding recheck_Inr[OF assms] Let_def by simp

lemma recheck_exists:
  assumes "recheck e tid uid a t w = Inr w'"
  shows "txn_exists w' tid' = txn_exists w tid'"
  by (rule txn_exists_cong) (simp add: recheck_transactions[OF assms] o_def)

lemma insert_txn_Inr:
  assumes "insert_txn e tid uid a loc t ty D = Inr D'"
  shows "\<not> txn_exists D tid"
    and "D' = (let new = \<lparr>row_id = Suc (seq_transactions D), transaction_id = tid, user_id = uid,
                   amount = a, location = loc, txn_time = t, txn_type = ty, status = OK\<rparr>;
            d1 = D\<lparr>transactions := transactions D @ [new],
                   seq_transactions := Suc (seq_transactions D)\<rparr>
        in trg_flag_rapid_txns e new (trg_flag_high_amount e new d1))"
proof -
  show 1: "\<not> txn_exists D tid"
    using assms unfolding insert_txn_def by (cases "txn_exists D tid") simp_all
  have 2: "\<not> (ty \<noteq> ''Credit'' \<and> ty \<noteq> ''Debit'')"
    using assms 1 unfolding insert_txn_def
    by (cases "ty \<noteq> ''Credit'' \<and> ty \<noteq> ''Debit''") simp_all
  show "D' = (let new = \<lparr>row_id = Suc (seq_transactions D), transaction_id = tid, user_id = uid,
                   amount = a, location = loc, txn_time = t, txn_type = ty, status = OK\<rparr>;
            d1 = D\<lparr>transactions := transactions D @ [new],
                   seq_transactions := Suc (seq_transactions D)\<rparr>
        in trg_flag_rapid_txns e new (trg_flag_high_amount e new d1))"
    using assms 1 2 unfolding insert_txn_def by (auto simp only: if_False simp_thms Let_def sum.inject)
qed

lemma count_window_trg_high [simp]:
  "count_window (trg_flag_high_amount e new d) uid t = count_window d uid t"
  by (simp add: trg_flag_high_amount_def)

lemma trg_rapid_eq:
  "trg_flag_rapid_txns e new d =
     (if count_window d (user_id new) (txn_time new) > 5
      then set_flagged (transaction_id new)
             (insert_alert e (transaction_id new) (user_id new) (amount new)
                (rapid_reason (count_window d (user_id new) (txn_time new))) d)
      else d)"
  by (simp add: trg_flag_rapid_txns_def Let_def)

lemma count_window_trg_rapid [simp]:
  "count_window (trg_flag_rapid_txns e new d) uid t = count_window d uid t"
  by (simp add: trg_rapid_eq)

lemma insert_txn_count:
  assumes "insert_txn e tid uid a loc t ty D = Inr D'"
  shows "count_window D' uid' t' =
           count_window D uid' t' + (if uid = uid' \<and> t' - 300 \<le> t \<and> t \<le> t' then 1 else 0)"
proof -
  have "count_window D' uid' t' = count_window (D\<lparr>transactions := transactions D @ [\<lparr>row_id = Suc (seq_transactions D), transaction_id = tid, user_id = uid,
                   amount = a, location = loc, txn_time = t, txn_type = ty, status = OK\<rparr>],
                   seq_transactions := Suc (seq_transactions D)\<rparr>) uid' t'"
    unfolding insert_txn_Inr(2)[OF assms] Let_def by simp
  then show ?thesis by (simp add: count_window_def)
qed

lemma trg_high_alerts:
  "fraud_alerts (trg_flag_high_amount e new d) = fraud_alerts d @
     (if amount new > 10000
      then [alert_row e (Suc (seq_fraud_alerts d)) (transaction_id new) (user_id new) (amount new)
              (high_reason (sql_text e (amount new)))]
      else [])"
  by (simp add: trg_flag_high_amount_def insert_alert_def set_flagged_def)

lemma trg_high_transactions:
  "transactions (trg_flag_high_amount e new d) =
     (if amount new > 10000
      then map (\<lambda>r. if transaction_id r = transaction_id new then r\<lparr>status := FLAGGED\<rparr> else r)
             (transactions d)
      else transactions d)"
  by (simp add: trg_flag_high_amount_def insert_alert_def set_flagged_def)

lemma trg_rapid_alerts:
  "fraud_alerts (trg_flag_rapid_txns e new d) = fraud_alerts d @
     (if count_window d (user_id new) (txn_time new) > 5
      then [alert_row e (Suc (seq_fraud_alerts d)) (transaction_id new) (user_id new) (amount new)
              (rapid_reason (count_window d (user_id new) (txn_time new)))]
      else [])"
  by (simp add: trg_rapid_eq insert_alert_def set_flagged_def)

lemma trg_rapid_transactions:
  "transactions (trg_flag_rapid_txns e new d) =
     (if count_window d (user_id new) (txn_time new) > 5
      then map (\<lambda>r. if transaction_id r = transaction_id new then r\<lparr>status := FLAGGED\<rparr> else r)
             (transactions d)
      else transactions d)"
  by (simp add: trg_rapid_eq insert_alert_def set_flagged_def)

lemma insert_txn_alerts:
  assumes "insert_txn e tid uid a loc t ty D = Inr D'"
  shows "\<exists>m n. fraud_alerts D' = fraud_alerts D
                  @ (if a > 10000 then [alert_row e m tid uid a (high_reason (sql_text e a))] else [])
                  @ (if count_window D' uid t > 5
                     then [alert_row e n tid uid a (rapid_reason (count_window D' uid t))] else [])"
proof -
  define new where "new = \<lparr>row_id = Suc (seq_transactions D), transaction_id = tid, user_id = uid,
                   amount = a, location = loc, txn_time = t, txn_type = ty, status = OK\<rparr>"
  define d1 where "d1 = D\<lparr>transactions := transactions D @ [new],
                   seq_transactions := Suc (seq_transactions D)\<rparr>"
  have D': "D' = trg_flag_rapid_txns e new (trg_flag_high_amount e new d1)"
    using insert_txn_Inr(2)[OF assms] by (simp add: Let_def new_def d1_def)
  have new: "transaction_id new = tid" "user_id new = uid" "amount new = a" "txn_time new = t"
    by (simp_all add: new_def)
  have d1: "fraud_alerts d1 = fraud_alerts D" by (simp add: d1_def)
  have c: "count_window D' uid t = count_window d1 uid t" by (simp add: D')
  have "fraud_alerts D' = fraud_alerts D
          @ (if a > 10000 then [alert_row e (Suc (seq_fraud_alerts d1)) tid uid a (high_reason (sql_text e a))] else [])
          @ (if count_window D' uid t > 5
             then [alert_row e (Suc (seq_fraud_alerts (trg_flag_high_amount e new d1))) tid uid a (rapid_reason (count_window D' uid t))] else [])"
    unfolding c unfolding D' by (simp add: trg_rapid_alerts trg_high_alerts new d1)
  then show ?thesis by blast
qed

lemma insert_txn_transactions:
  assumes "insert_txn e tid uid a loc t ty D = Inr D'"
  shows "transactions D' =
           transactions D @ [\<lparr>row_id = Suc (seq_transactions D), transaction_id = tid, user_id = uid,
              amount = a, location = loc, txn_time = t, txn_type = ty,
              status = (if a > 10000 \<or> count_window D' uid t > 5 then FLAGGED else OK)\<rparr>]"
proof -
  define new where "new = \<lparr>row_id = Suc (seq_transactions D), transaction_id = tid, user_id = uid,
                   amount = a, location = loc, txn_time = t, txn_type = ty, status = OK\<rparr>"
  define d1 where "d1 = D\<lparr>transactions := transactions D @ [new],
                   seq_transactions := Suc (seq_transactions D)\<rparr>"
  have D': "D' = trg_flag_rapid_txns e new (trg_flag_high_amount e new d1)"
    using insert_txn_Inr(2)[OF assms] by (simp add: Let_def new_def d1_def)
  have new: "transaction_id new = tid" "user_id new = uid" "amount new = a" "txn_time new = t"
    by (simp_all add: new_def)
  have d1: "transactions d1 = transactions D @ [new]" by (simp add: d1_def)
  have c: "count_window D' uid t = count_window d1 uid t" by (simp add: D')
  have n: "\<forall>r \<in> set (transactions D). transaction_id r \<noteq> tid"
    using insert_txn_Inr(1)[OF assms] by (auto simp: txn_exists_def)
  then have m: "map (\<lambda>r. if transaction_id r = tid then r\<lparr>status := FLAGGED\<rparr> else r) (transactions D) = transactions D"
    by (simp add: map_idI)
  have f: "new\<lparr>status := FLAGGED\<rparr> = \<lparr>row_id = Suc (seq_transactions D), transaction_id = tid, user_id = uid,
              amount = a, location = loc, txn_time = t, txn_type = ty, status = FLAGGED\<rparr>"
    by (simp add: new_def)
  show ?thesis
    unfolding c unfolding D'
    by (simp add: trg_rapid_transactions trg_high_transactions new d1 m f) (simp add: new_def)
qed

lemma add_store_duplicate:
  assumes "txn_exists D tid"
  shows "snd (snd (add_store e D tid uid a loc t ty)) = D"
    and "(added_ok, ''success'') \<notin> set (fst (add_store e D tid uid a loc t ty))"
    and "\<not> raises e Add_select \<Longrightarrow> add_store e D tid uid a loc t ty = ([(id_exists, ''error'')], Render_add_transaction, D)"
  using assms by (simp_all add: add_store_def msg_defs)

text \<open>
  Claim C6. A create request whose \<open>transaction_id\<close> is already stored changes neither table
  (the stored database is returned as it was), never reports success, and, when the form
  passes the handler's validation and the SELECT does not fail, flashes the error
  \<^verbatim>\<open>Transaction ID already exists!\<close>, the handler's form of DuplicateTransactionError.
\<close>

theorem create_duplicate_rejected:
  assumes "txn_exists D (form_transaction_id f)"
  shows "snd (snd (add_transaction e D (POST f))) = D \<and>
         (added_ok, ''success'') \<notin> set (fst (add_transaction e D (POST f))) \<and>
         (form_transaction_id f \<noteq> [] \<and> valid_form f \<and> \<not> raises e Add_select \<longrightarrow>
            add_transaction e D (POST f) = ([(id_exists, ''error'')], Render_add_transaction, D))"
proof (intro conjI impI)
  show "snd (snd (add_transaction e D (POST f))) = D"
    by (simp add: add_transaction_def add_store_duplicate(1)[OF assms] split: amount_field.splits)
  show "(added_ok, ''success'') \<notin> set (fst (add_transaction e D (POST f)))"
    using add_store_duplicate(2)[OF assms]
    by (simp add: add_transaction_def msg_defs split: amount_field.splits)
  assume "form_transaction_id f \<noteq> [] \<and> valid_form f \<and> \<not> raises e Add_select"
  then show "add_transaction e D (POST f) = ([(id_exists, ''error'')], Render_add_transaction, D)"
    using add_store_duplicate(3)[OF assms]
    by (auto simp: add_transaction_def valid_form_def split: amount_field.splits)
qed

lemmas run_defs = add_transaction_def add_store_def update_transaction_def update_store_def
  delete_transaction_def recheck_def recheck_high_def recheck_rapid_def exec_def bind_result_def
  insert_txn_def update_txn_def trg_flag_high_amount_def trg_flag_rapid_txns_def
  insert_alert_def set_flagged_def delete_alerts_def delete_txn_def count_window_def
  txn_exists_def quiet_env_def txn_form_def empty_db_def whole_text_def update_failed_def Let_def

lemma scenario_a:
  "add_transaction quiet_env empty_db (POST (txn_form ''TXN001'' ''USER001'' 12000 0)) =
     ([(added_ok, ''success'')], Redirect_view_transactions,
      \<lparr>transactions = [\<lparr>row_id = 1, transaction_id = ''TXN001'', user_id = ''USER001'', amount = 12000,
          location = ''Delhi'', txn_time = 0, txn_type = ''Debit'', status = FLAGGED\<rparr>],
       fraud_alerts = [\<lparr>fa_id = 1, fa_transaction_id = ''TXN001'', fa_user_id = ''USER001'', fa_amount = 12000,
          fa_reason = high_reason ''12000.0'', fa_flagged_at = 0\<rparr>],
       seq_transactions = 1, seq_fraud_alerts = 1\<rparr>)"
  by (simp add: run_defs alert_row_def digit_char_def)

lemma delete_transaction_ok:
  assumes "\<not> raises e Del_alerts" "\<not> raises e Del_transaction" "\<not> raises e Del_commit"
  shows "delete_transaction e D tid =
           ([(deleted_ok, ''success'')], Redirect_view_transactions, delete_txn tid (delete_alerts tid D))"
  using assms by (simp add: delete_transaction_def exec_def bind_result_def)

lemma vw_suspicious_alerts:
  "row \<in> set (vw_suspicious d) \<Longrightarrow> fst row \<in> set (fraud_alerts d)"
proof -
  have j: "fst p = a" if "p \<in> set (case xs of [] \<Rightarrow> [(a, None)] | r # rs \<Rightarrow> map (\<lambda>r. (a, Some r)) (r # rs))"
    for p :: "fraud_alert \<times> txn option" and a and xs :: "txn list"
    using that by (cases xs) auto
  assume "row \<in> set (vw_suspicious d)"
  then obtain a where a: "a \<in> set (fraud_alerts d)"
    and r: "row \<in> set (case filter (\<lambda>r. transaction_id r = fa_transaction_id a) (transactions d) of
                         [] \<Rightarrow> [(a, None)] | r # rs \<Rightarrow> map (\<lambda>r. (a, Some r)) (r # rs))"
    unfolding vw_suspicious_def by auto
  from j[OF r] a show ?thesis by simp
qed

text \<open>
  Claim C7, as amended. When the store does not fail, delete reports success, removes every
  alert that references the \<open>transaction_id\<close> and then the transaction, so that neither the
  alert table nor the alert listing has a row for it afterwards. For a \<open>transaction_id\<close> that
  is not stored, the transactions are untouched, and the whole database is untouched when no
  alert referenced the id either.
\<close>

theorem delete_cascade:
  assumes "\<not> raises e Del_alerts" "\<not> raises e Del_transaction" "\<not> raises e Del_commit"
    and "delete_transaction e D tid = (fl, resp, D')"
  shows "fl = [(deleted_ok, ''success'')] \<and>
         fraud_alerts D' = filter (\<lambda>x. fa_transaction_id x \<noteq> tid) (fraud_alerts D) \<and>
         transactions D' = filter (\<lambda>r. transaction_id r \<noteq> tid) (transactions D) \<and>
         alerts_for D' tid = [] \<and> \<not> txn_exists D' tid \<and>
         (\<forall>row \<in> set (fraud_alerts_page D'). fa_transaction_id (fst row) \<noteq> tid) \<and>
         (\<not> txn_exists D tid \<longrightarrow> transactions D' = transactions D) \<and>
         (\<not> txn_exists D tid \<and> alerts_for D tid = [] \<longrightarrow> D' = D)"
proof -
  from assms(4) have fl: "fl = [(deleted_ok, ''success'')]"
    and D': "D' = delete_txn tid (delete_alerts tid D)"
    unfolding delete_transaction_ok[OF assms(1-3)] by simp_all
  have a: "fraud_alerts D' = filter (\<lambda>x. fa_transaction_id x \<noteq> tid) (fraud_alerts D)"
    by (simp add: D' delete_txn_def delete_alerts_def)
  have t: "transactions D' = filter (\<lambda>r. transaction_id r \<noteq> tid) (transactions D)"
    by (simp add: D' delete_txn_def delete_alerts_def)
  have n: "alerts_for D' tid = []"
    by (simp add: alerts_for_def a filter_empty_conv)
  have x: "\<not> txn_exists D' tid"
    by (simp add: txn_exists_def t)
  have p: "\<forall>row \<in> set (fraud_alerts_page D'). fa_transaction_id (fst row) \<noteq> tid"
  proof
    fix row assume "row \<in> set (fraud_alerts_page D')"
    then have "fst row \<in> set (fraud_alerts D')"
      unfolding fraud_alerts_page_def by (rule vw_suspicious_alerts)
    then show "fa_transaction_id (fst row) \<noteq> tid" by (simp add: a)
  qed
  have u: "transactions D' = transactions D" if "\<not> txn_exists D tid"
    using that unfolding t txn_exists_def by (simp add: filter_id_conv)
  have v: "D' = D" if "\<not> txn_exists D tid \<and> alerts_for D tid = []"
  proof -
    from that have "fraud_alerts D' = fraud_alerts D"
      unfolding a alerts_for_def by (simp add: filter_id_conv filter_empty_conv)
    moreover have "transactions D' = transactions D" using that u by simp
    moreover have "seq_transactions D' = seq_transactions D" "seq_fraud_alerts D' = seq_fraud_alerts D"
      "db.more D' = db.more D"
      by (simp_all add: D' delete_txn_def delete_alerts_def)
    ultimately show ?thesis by (simp add: db.equality)
  qed
  show ?thesis using fl a t n x p u v by blast
qed

lemma update_txn_absent:
  assumes "\<not> txn_exists D tid"
  shows "update_txn tid uid a loc t ty D = Inr D"
proof -
  from assms have "\<forall>r \<in> set (transactions D). transaction_id r \<noteq> tid"
    by (simp add: txn_exists_def)
  then have "map (\<lambda>r. if transaction_id r = tid
                  then r\<lparr>user_id := uid, amount := a, location := loc, txn_time := t,
                         txn_type := ty, status := OK\<rparr>
                  else r) (transactions D) = transactions D"
    by (simp add: map_idI)
  with assms show ?thesis unfolding update_txn_def by simp
qed

lemma recheck_no_faults:
  assumes "\<forall>s. \<not> raises e s"
  shows "\<exists>w'. recheck e tid uid a t w = Inr w'"
  using assms
  by (simp add: recheck_def recheck_high_def recheck_rapid_def exec_def bind_result_def Let_def)

lemma update_transaction_valid:
  assumes "valid_form f" "form_txn_time f = Some t" "form_amount f = Parsed a"
  shows "update_transaction e D tid (POST f) =
           update_store e D tid (form_user_id f) a (form_location f) t (form_txn_type f)"
  using assms by (simp add: update_transaction_def valid_form_def)

text \<open>
  Claim C10. An update of a \<open>transaction_id\<close> that is not stored, with a valid form and a store
  that does not fail, reports success, leaves the transactions table (and so every status)
  as it was, and, when the amount exceeds 10000 or the user's window count exceeds 5, leaves
  an alert for the \<open>transaction_id\<close>, which no stored transaction has.
\<close>

theorem update_absent_dangling:
  assumes "\<not> txn_exists D tid" "valid_form f" "form_txn_time f = Some t" "form_amount f = Parsed a"
    and "\<forall>s. \<not> raises e s"
    and "update_transaction e D tid (POST f) = (fl, resp, D')"
  shows "fl = [(updated_ok, ''success'')] \<and> resp = Redirect_view_transactions \<and>
         transactions D' = transactions D \<and>
         (a > 10000 \<or> count_window D (form_user_id f) t > 5 \<longrightarrow>
            alerts_for D' tid \<noteq> [] \<and> \<not> txn_exists D' tid)"
proof -
  obtain w' where w': "recheck e tid (form_user_id f) a t D = Inr w'"
    using recheck_no_faults[OF assms(5)] by blast
  have "update_store e D tid (form_user_id f) a (form_location f) t (form_txn_type f) =
          ([(updated_ok, ''success'')], Redirect_view_transactions, w')"
    using assms(5) by (simp add: update_store_def exec_def update_txn_absent[OF assms(1)] w')
  with assms(6) have r: "fl = [(updated_ok, ''success'')]" "resp = Redirect_view_transactions" "D' = w'"
    unfolding update_transaction_valid[OF assms(2-4)] by simp_all
  note rc = w'[folded r(3)]
  have n: "\<forall>r \<in> set (transactions D). transaction_id r \<noteq> tid"
    using assms(1) by (simp add: txn_exists_def)
  have tr: "transactions D' = transactions D"
    unfolding recheck_transactions[OF rc] using n by (simp add: map_idI)
  have ex: "\<not> txn_exists D' tid"
    using assms(1) by (simp add: recheck_exists[OF rc])
  have al: "alerts_for D' tid \<noteq> []" if "a > 10000 \<or> count_window D (form_user_id f) t > 5"
    using recheck_alerts[OF rc] that by (auto simp: alerts_for_def)
  show ?thesis using r(1,2) tr ex al by blast
qed

lemma update_success:
  assumes "update_transaction e D tid (POST f) = (fl, resp, D')" "(updated_ok, ''success'') \<in> set fl"
    and "form_amount f = Parsed a" "form_txn_time f = Some t"
  shows "\<exists>w. update_txn tid (form_user_id f) a (form_location f) t (form_txn_type f) D = Inr w \<and>
             recheck e tid (form_user_id f) a t w = Inr D'"
proof -
  from update_transaction_success[OF assms(1,2)] assms(3,4)
  have "update_store e D tid (form_user_id f) a (form_location f) t (form_txn_type f) = (fl, resp, D')"
    by auto
  from update_store_success[OF this assms(2)] show ?thesis .
qed

lemma update_count:
  assumes "update_txn tid uid a loc t ty D = Inr w" "recheck e tid uid a t w = Inr D'"
  shows "count_window D' uid' t' = count_window w uid' t'"
  by (rule recheck_count[OF assms(2)])

lemma update_alerts:
  assumes "update_txn tid uid a loc t ty D = Inr w" "recheck e tid uid a t w = Inr D'"
  shows "\<exists>m n. fraud_alerts D' = filter (\<lambda>x. fa_transaction_id x \<noteq> tid) (fraud_alerts D)
                  @ (if a > 10000 then [alert_row e m tid uid a (high_reason (py_str e a))] else [])
                  @ (if count_window D' uid t > 5
                     then [alert_row e n tid uid a (rapid_reason (count_window D' uid t))] else [])"
proof -
  have c: "count_window w uid t = count_window D' uid t" by (rule recheck_count[OF assms(2), symmetric])
  have f: "fraud_alerts w = fraud_alerts D"
    by (subst update_txn_Inr[OF assms(1)]) simp
  from recheck_alerts[OF assms(2)] show ?thesis unfolding c f .
qed

lemma update_transactions:
  assumes "update_txn tid uid a loc t ty D = Inr w" "recheck e tid uid a t w = Inr D'"
  shows "transactions D' =
           map (\<lambda>r. if transaction_id r = tid
                  then r\<lparr>user_id := uid, amount := a, location := loc, txn_time := t, txn_type := ty,
                         status := (if a > 10000 \<or> count_window D' uid t > 5 then FLAGGED else OK)\<rparr>
                  else r) (transactions D)"
proof -
  have c: "count_window w uid t = count_window D' uid t" by (rule recheck_count[OF assms(2), symmetric])
  have w: "transactions w = map (\<lambda>r. if transaction_id r = tid
                  then r\<lparr>user_id := uid, amount := a, location := loc, txn_time := t,
                         txn_type := ty, status := OK\<rparr>
                  else r) (transactions D)"
    by (subst update_txn_Inr[OF assms(1)]) simp
  show ?thesis
  proof (cases "a > 10000 \<or> count_window D' uid t > 5")
    case True
    then have "transactions D' = map (\<lambda>r. if transaction_id r = tid then r\<lparr>status := FLAGGED\<rparr> else r) (transactions w)"
      using recheck_transactions[OF assms(2)] unfolding c by simp
    also have "\<dots> = map (\<lambda>r. if transaction_id r = tid
                  then r\<lparr>user_id := uid, amount := a, location := loc, txn_time := t, txn_type := ty,
                         status := FLAGGED\<rparr>
                  else r) (transactions D)"
      unfolding w map_map by (rule map_cong) simp_all
    finally show ?thesis using True by simp
  next
    case False
    then have "transactions D' = transactions w"
      using recheck_transactions[OF assms(2)] unfolding c by simp
    then show ?thesis using False unfolding w by simp
  qed
qed

lemma map_update_member:
  assumes "r \<in> set (map (\<lambda>x. if transaction_id x = tid then g x else x) xs)"
    and "\<And>x. transaction_id (g x) = transaction_id x"
    and "transaction_id r = tid"
  shows "\<exists>x \<in> set xs. transaction_id x = tid \<and> r = g x"
proof -
  from assms(1) obtain x where x: "x \<in> set xs" "r = (if transaction_id x = tid then g x else x)"
    by (auto simp: image_iff)
  show ?thesis
  proof (cases "transaction_id x = tid")
    case True
    with x show ?thesis by auto
  next
    case False
    with x assms(3) show ?thesis by simp
  qed
qed

text \<open>
  Claim C9. After a successful update of a stored transaction to an amount of at most 10000,
  with at most 5 transactions of the user in the window, no alert references the
  transaction and its status is OK.
\<close>

theorem update_clears_alerts:
  assumes "update_transaction e D tid (POST f) = (fl, resp, D')" "(updated_ok, ''success'') \<in> set fl"
    and "form_amount f = Parsed a" "form_txn_time f = Some t"
    and "txn_exists D tid" "a \<le> 10000" "count_window D' (form_user_id f) t \<le> 5"
  shows "alerts_for D' tid = [] \<and> txn_exists D' tid \<and>
         (\<forall>r \<in> set (transactions D'). transaction_id r = tid \<longrightarrow> status r = OK)"
proof -
  from update_success[OF assms(1-4)] obtain w where
    u: "update_txn tid (form_user_id f) a (form_location f) t (form_txn_type f) D = Inr w"
    and r: "recheck e tid (form_user_id f) a t w = Inr D'" by blast
  have na: "\<not> a > 10000" using assms(6) by simp
  have nc: "\<not> count_window D' (form_user_id f) t > 5" using assms(7) by simp
  from update_alerts[OF u r] obtain m n where
    "fraud_alerts D' = filter (\<lambda>x. fa_transaction_id x \<noteq> tid) (fraud_alerts D)
       @ (if a > 10000 then [alert_row e m tid (form_user_id f) a (high_reason (py_str e a))] else [])
       @ (if count_window D' (form_user_id f) t > 5
          then [alert_row e n tid (form_user_id f) a (rapid_reason (count_window D' (form_user_id f) t))]
          else [])" by blast
  then have fa: "fraud_alerts D' = filter (\<lambda>x. fa_transaction_id x \<noteq> tid) (fraud_alerts D)"
    by (simp only: na nc if_False append_Nil2)
  have 1: "alerts_for D' tid = []"
    unfolding alerts_for_def fa by (simp add: filter_empty_conv)
  have 2: "txn_exists D' tid"
    using assms(5) by (simp only: recheck_exists[OF r] update_txn_exists[OF u])
  have tr: "transactions D' =
           map (\<lambda>r. if transaction_id r = tid
                  then r\<lparr>user_id := form_user_id f, amount := a, location := form_location f,
                         txn_time := t, txn_type := form_txn_type f, status := OK\<rparr>
                  else r) (transactions D)"
    using update_transactions[OF u r] by (simp only: na nc if_False simp_thms)
  let ?G = "\<lambda>r. r\<lparr>user_id := form_user_id f, amount := a, location := form_location f,
                         txn_time := t, txn_type := form_txn_type f, status := OK\<rparr>"
  have 3: "\<forall>r \<in> set (transactions D'). transaction_id r = tid \<longrightarrow> status r = OK"
  proof (intro ballI impI)
    fix r assume "r \<in> set (transactions D')" "transaction_id r = tid"
    then have "r \<in> set (map (\<lambda>x. if transaction_id x = tid then ?G x else x) (transactions D))"
      by (simp only: tr)
    from map_update_member[OF this _ \<open>transaction_id r = tid\<close>]
    obtain x where "r = ?G x" by auto
    then show "status r = OK" by simp
  qed
  show ?thesis using 1 2 3 by blast
qed

lemma store_a_eq:
  "store_a =
      \<lparr>transactions = [\<lparr>row_id = 1, transaction_id = ''TXN001'', user_id = ''USER001'', amount = 12000,
          location = ''Delhi'', txn_time = 0, txn_type = ''Debit'', status = FLAGGED\<rparr>],
       fraud_alerts = [\<lparr>fa_id = 1, fa_transaction_id = ''TXN001'', fa_user_id = ''USER001'', fa_amount = 12000,
          fa_reason = high_reason ''12000.0'', fa_flagged_at = 0\<rparr>],
       seq_transactions = 1, seq_fraud_alerts = 1\<rparr>"
  by (simp add: store_a_def scenario_a)

lemma dangling_update:
  "update_transaction quiet_env empty_db ''TXN404'' (POST (txn_form ''TXN404'' ''USER001'' 12000 0)) =
     ([(updated_ok, ''success'')], Redirect_view_transactions,
      \<lparr>transactions = [],
       fraud_alerts = [\<lparr>fa_id = 1, fa_transaction_id = ''TXN404'', fa_user_id = ''USER001'', fa_amount = 12000,
          fa_reason = high_reason ''12000.0'', fa_flagged_at = 0\<rparr>],
       seq_transactions = 0, seq_fraud_alerts = 1\<rparr>)"
  by (simp add: run_defs alert_row_def digit_char_def)

lemma dangling_db_eq:
  "dangling_db =
      \<lparr>transactions = [],
       fraud_alerts = [\<lparr>fa_id = 1, fa_transaction_id = ''TXN404'', fa_user_id = ''USER001'', fa_amount = 12000,
          fa_reason = high_reason ''12000.0'', fa_flagged_at = 0\<rparr>],
       seq_transactions = 0, seq_fraud_alerts = 1\<rparr>"
  by (simp add: dangling_db_def dangling_update)

text \<open>
  The duplicate check at work: a second create of TXN001 on the store of scenario A.
\<close>

theorem create_duplicate_rejected_witness:
  "txn_exists store_a ''TXN001'' \<and>
   add_transaction quiet_env store_a (POST (txn_form ''TXN001'' ''USER002'' 500 60)) =
     ([(id_exists, ''error'')], Render_add_transaction, store_a)"
proof -
  have h: "txn_exists store_a ''TXN001''" by (simp add: store_a_eq txn_exists_def)
  from create_duplicate_rejected[where e=quiet_env and f="txn_form ''TXN001'' ''USER002'' 500 60" and D=store_a] h
  show ?thesis by (simp add: valid_form_def txn_form_def quiet_env_def)
qed

text \<open>
  Deleting the flagged TXN001 of scenario A (scenario D), and deleting the absent TXN002.
\<close>

theorem delete_cascade_witness:
  "fst (delete_transaction quiet_env store_a ''TXN001'') = [(deleted_ok, ''success'')] \<and>
   alerts_for (snd (snd (delete_transaction quiet_env store_a ''TXN001''))) ''TXN001'' = [] \<and>
   \<not> txn_exists (snd (snd (delete_transaction quiet_env store_a ''TXN001''))) ''TXN001'' \<and>
   \<not> txn_exists store_a ''TXN002'' \<and> alerts_for store_a ''TXN002'' = [] \<and>
   snd (snd (delete_transaction quiet_env store_a ''TXN002'')) = store_a"
proof -
  have q: "\<not> raises quiet_env Del_alerts" "\<not> raises quiet_env Del_transaction"
    "\<not> raises quiet_env Del_commit" by (simp_all add: quiet_env_def)
  have n: "\<not> txn_exists store_a ''TXN002''" "alerts_for store_a ''TXN002'' = []"
    by (simp_all add: store_a_eq txn_exists_def alerts_for_def)
  from delete_cascade[OF q, of store_a "''TXN001''"
      "fst (delete_transaction quiet_env store_a ''TXN001'')"
      "fst (snd (delete_transaction quiet_env store_a ''TXN001''))"
      "snd (snd (delete_transaction quiet_env store_a ''TXN001''))"]
    delete_cascade[OF q, of store_a "''TXN002''"
      "fst (delete_transaction quiet_env store_a ''TXN002'')"
      "fst (snd (delete_transaction quiet_env store_a ''TXN002''))"
      "snd (snd (delete_transaction quiet_env store_a ''TXN002''))"] n
  show ?thesis by simp
qed

text \<open>
  Claim C7 as stated fails: deleting a \<open>transaction_id\<close> that is not stored is not always a
  no-op. On a store that holds an alert for TXN404 and no such transaction, the delete
  succeeds and removes the alert.
\<close>

theorem delete_absent_counterexample:
  "\<not> txn_exists dangling_db ''TXN404'' \<and>
   fst (delete_transaction quiet_env dangling_db ''TXN404'') = [(deleted_ok, ''success'')] \<and>
   snd (snd (delete_transaction quiet_env dangling_db ''TXN404'')) \<noteq> dangling_db"
  by (simp add: dangling_db_eq delete_transaction_def exec_def bind_result_def quiet_env_def
      delete_alerts_def delete_txn_def txn_exists_def)

text \<open>
  Updating TXN404 on the empty database with amount 12000.
\<close>

theorem update_absent_dangling_witness:
  "\<not> txn_exists empty_db ''TXN404'' \<and>
   fst (update_transaction quiet_env empty_db ''TXN404'' (POST (txn_form ''TXN404'' ''USER001'' 12000 0)))
     = [(updated_ok, ''success'')] \<and>
   transactions dangling_db = [] \<and> alerts_for dangling_db ''TXN404'' \<noteq> [] \<and>
   \<not> txn_exists dangling_db ''TXN404''"
proof -
  have h: "\<not> txn_exists empty_db ''TXN404''" by (simp add: empty_db_def txn_exists_def)
  have v: "valid_form (txn_form ''TXN404'' ''USER001'' 12000 0)"
    "form_txn_time (txn_form ''TXN404'' ''USER001'' 12000 0) = Some 0"
    "form_amount (txn_form ''TXN404'' ''USER001'' 12000 0) = Parsed 12000"
    by (simp_all add: valid_form_def txn_form_def)
  have q: "\<forall>s. \<not> raises quiet_env s" by (simp add: quiet_env_def)
  from update_absent_dangling[OF h v q, of
      "fst (update_transaction quiet_env empty_db ''TXN404'' (POST (txn_form ''TXN404'' ''USER001'' 12000 0)))"
      "fst (snd (update_transaction quiet_env empty_db ''TXN404'' (POST (txn_form ''TXN404'' ''USER001'' 12000 0))))"
      dangling_db] h
  show ?thesis by (simp add: dangling_db_def empty_db_def)
qed

lemma scenario_c:
  "update_transaction quiet_env store_a ''TXN001'' (POST (txn_form ''TXN001'' ''USER001'' 500 0)) =
     ([(updated_ok, ''success'')], Redirect_view_transactions,
      \<lparr>transactions = [\<lparr>row_id = 1, transaction_id = ''TXN001'', user_id = ''USER001'', amount = 500,
          location = ''Delhi'', txn_time = 0, txn_type = ''Debit'', status = OK\<rparr>],
       fraud_alerts = [], seq_transactions = 1, seq_fraud_alerts = 1\<rparr>)"
  by (simp add: store_a_eq run_defs)

lemma store_c_eq:
  "store_c =
      \<lparr>transactions = [\<lparr>row_id = 1, transaction_id = ''TXN001'', user_id = ''USER001'', amount = 500,
          location = ''Delhi'', txn_time = 0, txn_type = ''Debit'', status = OK\<rparr>],
       fraud_alerts = [], seq_transactions = 1, seq_fraud_alerts = 1\<rparr>"
  by (simp add: store_c_def scenario_c)

text \<open>
  Scenario C: TXN001 of scenario A, flagged for its amount of 12000, is updated to 500.
\<close>

theorem update_clears_alerts_witness:
  "alerts_for store_a ''TXN001'' \<noteq> [] \<and> map status (transactions store_a) = [FLAGGED] \<and>
   alerts_for store_c ''TXN001'' = [] \<and> txn_exists store_c ''TXN001'' \<and>
   map status (transactions store_c) = [OK]"
proof -
  have u: "update_transaction quiet_env store_a ''TXN001'' (POST (txn_form ''TXN001'' ''USER001'' 500 0)) =
             ([(updated_ok, ''success'')], Redirect_view_transactions, store_c)"
    by (simp add: scenario_c store_c_eq)
  have h: "(updated_ok, ''success'') \<in> set [(updated_ok, ''success'')]"
    "form_amount (txn_form ''TXN001'' ''USER001'' 500 0) = Parsed 500"
    "form_txn_time (txn_form ''TXN001'' ''USER001'' 500 0) = Some 0"
    "txn_exists store_a ''TXN001''" "(500::real) \<le> 10000"
    "count_window store_c (form_user_id (txn_form ''TXN001'' ''USER001'' 500 0)) 0 \<le> 5"
    by (simp_all add: txn_form_def store_a_eq store_c_eq txn_exists_def count_window_def)
  from update_clears_alerts[OF u h]
  show ?thesis by (simp add: store_a_eq store_c_eq alerts_for_def)
qed

text \<open>
  Claim C5 fails on the empty database. The GET branch of the handler looks the
  \<open>transaction_id\<close> up and flashes \<^verbatim>\<open>Transaction not found!\<close>; the POST branch does not look it up:
  it reports success for TXN404, which is not stored, and changes the store (an alert is
  inserted).
\<close>

theorem update_absent_accepted:
  "\<not> txn_exists empty_db ''TXN404'' \<and>
   update_transaction quiet_env empty_db ''TXN404'' GET =
     ([(not_found, ''error'')], Redirect_view_transactions, empty_db) \<and>
   update_transaction quiet_env empty_db ''TXN404'' (POST (txn_form ''TXN404'' ''USER001'' 12000 0)) =
     ([(updated_ok, ''success'')], Redirect_view_transactions,
      empty_db\<lparr>fraud_alerts := [\<lparr>fa_id = 1, fa_transaction_id = ''TXN404'', fa_user_id = ''USER001'',
                   fa_amount = 12000, fa_reason = high_reason ''12000.0'', fa_flagged_at = 0\<rparr>],
               seq_fraud_alerts := 1\<rparr>)"
  by (simp add: dangling_update) (simp add: empty_db_def txn_exists_def update_transaction_def)

text \<open>
  Claim C3 fails: the handler commits right after the UPDATE statement. When the INSERT of the
  new alert fails afterwards, the rollback restores the state of that commit and not the
  state before the request: the stored TXN001 has the new amount 15000 and status OK, while
  the alert of the old amount is still there. Only a failure of the first commit itself
  (or of the UPDATE) leaves the store as it was.
\<close>

theorem update_not_atomic:
  "update_transaction (fail_at Upd_insert_high) store_a ''TXN001''
       (POST (txn_form ''TXN001'' ''USER001'' 15000 0)) =
     ([(Database_error OperationalError, ''error''), (Database_error ProgrammingError, ''error'')],
      Redirect_view_transactions,
      \<lparr>transactions = [\<lparr>row_id = 1, transaction_id = ''TXN001'', user_id = ''USER001'', amount = 15000,
          location = ''Delhi'', txn_time = 0, txn_type = ''Debit'', status = OK\<rparr>],
       fraud_alerts = [\<lparr>fa_id = 1, fa_transaction_id = ''TXN001'', fa_user_id = ''USER001'',
          fa_amount = 12000, fa_reason = high_reason ''12000.0'', fa_flagged_at = 0\<rparr>],
       seq_transactions = 1, seq_fraud_alerts = 1\<rparr>) \<and>
   snd (snd (update_transaction (fail_at Upd_insert_high) store_a ''TXN001''
       (POST (txn_form ''TXN001'' ''USER001'' 15000 0)))) \<noteq> store_a \<and>
   snd (snd (update_transaction (fail_at Upd_commit_first) store_a ''TXN001''
       (POST (txn_form ''TXN001'' ''USER001'' 15000 0)))) = store_a"
  by (simp add: store_a_eq fail_at_def run_defs)

text \<open>
  Claim C4 fails after a completed create: TXN404 is added, with amount 500, to the store in
  which the update of the absent TXN404 left an alert. The new transaction has status OK
  and an alert that references it.
\<close>

theorem status_alert_mismatch:
  "add_transaction quiet_env dangling_db (POST (txn_form ''TXN404'' ''USER001'' 500 0)) =
     ([(added_ok, ''success'')], Redirect_view_transactions,
      \<lparr>transactions = [\<lparr>row_id = 1, transaction_id = ''TXN404'', user_id = ''USER001'', amount = 500,
          location = ''Delhi'', txn_time = 0, txn_type = ''Debit'', status = OK\<rparr>],
       fraud_alerts = [\<lparr>fa_id = 1, fa_transaction_id = ''TXN404'', fa_user_id = ''USER001'',
          fa_amount = 12000, fa_reason = high_reason ''12000.0'', fa_flagged_at = 0\<rparr>],
       seq_transactions = 1, seq_fraud_alerts = 1\<rparr>)"
  by (simp add: dangling_db_eq run_defs)

lemma rule_of_alert_row [simp]:
  "is_high_alert (alert_row e n tid uid a (high_reason txt))"
  "\<not> is_high_alert (alert_row e n tid uid a (rapid_reason c))"
  "is_rapid_alert (alert_row e n tid uid a (rapid_reason c))"
  "\<not> is_rapid_alert (alert_row e n tid uid a (high_reason txt))"
  by (simp_all add: is_high_alert_def is_rapid_alert_def high_reason_def rapid_reason_def)

lemma add_success:
  assumes "add_transaction e D (POST f) = (fl, resp, D')" "(added_ok, ''success'') \<in> set fl"
  shows "\<exists>a. form_amount f = Parsed a \<and> 0 < a \<and> \<not> txn_exists D (form_transaction_id f) \<and>
           insert_txn e (form_transaction_id f) (form_user_id f) a (form_location f)
             (case form_txn_time f of None \<Rightarrow> py_now e | Some t \<Rightarrow> t) (form_txn_type f) D = Inr D'"
proof -
  from add_transaction_success[OF assms] obtain a where
    a: "form_amount f = Parsed a" "0 < a"
    and s: "add_store e D (form_transaction_id f) (form_user_id f) a (form_location f)
             (case form_txn_time f of None \<Rightarrow> py_now e | Some t \<Rightarrow> t) (form_txn_type f) = (fl, resp, D')"
    by blast
  from add_store_success[OF s assms(2)] a show ?thesis by blast
qed

lemma insert_new_alerts:
  assumes "insert_txn e tid uid a loc t ty D = Inr D'"
  shows "\<exists>new. fraud_alerts D' = fraud_alerts D @ new \<and> (\<forall>x \<in> set new. fa_transaction_id x = tid) \<and>
           map (\<lambda>x. (fa_amount x, fa_reason x)) (filter is_high_alert new) =
             (if a > 10000 then [(a, high_reason (sql_text e a))] else []) \<and>
           map fa_reason (filter is_rapid_alert new) =
             (if count_window D' uid t > 5 then [rapid_reason (count_window D' uid t)] else [])"
proof -
  from insert_txn_alerts[OF assms] obtain m n where
    f: "fraud_alerts D' = fraud_alerts D
          @ ((if a > 10000 then [alert_row e m tid uid a (high_reason (sql_text e a))] else [])
          @ (if count_window D' uid t > 5
             then [alert_row e n tid uid a (rapid_reason (count_window D' uid t))] else []))"
    by auto
  show ?thesis
    by (rule exI[where x="(if a > 10000 then [alert_row e m tid uid a (high_reason (sql_text e a))] else [])
          @ (if count_window D' uid t > 5
             then [alert_row e n tid uid a (rapid_reason (count_window D' uid t))] else [])"])
       (simp add: f)
qed

lemma update_new_alerts:
  assumes "update_txn tid uid a loc t ty D = Inr w" "recheck e tid uid a t w = Inr D'"
  shows "\<exists>new. fraud_alerts D' = filter (\<lambda>x. fa_transaction_id x \<noteq> tid) (fraud_alerts D) @ new \<and>
           (\<forall>x \<in> set new. fa_transaction_id x = tid) \<and>
           map (\<lambda>x. (fa_amount x, fa_reason x)) (filter is_high_alert new) =
             (if a > 10000 then [(a, high_reason (py_str e a))] else []) \<and>
           map fa_reason (filter is_rapid_alert new) =
             (if count_window D' uid t > 5 then [rapid_reason (count_window D' uid t)] else [])"
proof -
  from update_alerts[OF assms] obtain m n where
    f: "fraud_alerts D' = filter (\<lambda>x. fa_transaction_id x \<noteq> tid) (fraud_alerts D)
          @ ((if a > 10000 then [alert_row e m tid uid a (high_reason (py_str e a))] else [])
          @ (if count_window D' uid t > 5
             then [alert_row e n tid uid a (rapid_reason (count_window D' uid t))] else []))"
    by auto
  show ?thesis
    by (rule exI[where x="(if a > 10000 then [alert_row e m tid uid a (high_reason (py_str e a))] else [])
          @ (if count_window D' uid t > 5
             then [alert_row e n tid uid a (rapid_reason (count_window D' uid t))] else [])"])
       (simp add: f)
qed

lemma filter_all_eq:
  assumes "\<forall>x \<in> set xs. fa_transaction_id x = tid"
  shows "filter (\<lambda>x. fa_transaction_id x = tid) xs = xs"
  using assms by (simp add: filter_id_conv)

lemma high_reason_contains:
  "sublist txt (high_reason txt)" "sublist ''10,000'' (high_reason txt)"
proof -
  have "high_reason txt = (''High amount transaction: '' @ rupee) @ txt @ ('' exceeds '' @ rupee @ ''10,000 limit'')"
    by (simp add: high_reason_def)
  then show "sublist txt (high_reason txt)"
    by (simp only: sublist_appendI)
  have "high_reason txt = (''High amount transaction: '' @ rupee @ txt @ '' exceeds '' @ rupee) @ ''10,000'' @ '' limit''"
    by (simp add: high_reason_def)
  then show "sublist ''10,000'' (high_reason txt)"
    by (simp only: sublist_appendI)
qed

lemma insert_txn_flagged:
  assumes "insert_txn e tid uid a loc t ty D = Inr D'" "a > 10000 \<or> count_window D' uid t > 5"
    and "r \<in> set (transactions D')" "transaction_id r = tid"
  shows "status r = FLAGGED"
proof -
  have n: "\<forall>r \<in> set (transactions D). transaction_id r \<noteq> tid"
    using insert_txn_Inr(1)[OF assms(1)] by (simp add: txn_exists_def)
  define X where "X = \<lparr>row_id = Suc (seq_transactions D), transaction_id = tid, user_id = uid,
              amount = a, location = loc, txn_time = t, txn_type = ty,
              status = (if a > 10000 \<or> count_window D' uid t > 5 then FLAGGED else OK)\<rparr>"
  have "transactions D' = transactions D @ [X]"
    unfolding X_def by (rule insert_txn_transactions[OF assms(1)])
  with assms(3) have "r \<in> set (transactions D) \<or> r = X" by auto
  with n assms(4) have "r = X" by blast
  then show ?thesis using assms(2) by (simp add: X_def)
qed

lemma update_row:
  assumes "update_txn tid uid a loc t ty D = Inr w" "recheck e tid uid a t w = Inr D'"
    and "r \<in> set (transactions D')" "transaction_id r = tid"
  shows "user_id r = uid \<and> amount r = a \<and> txn_time r = t \<and>
         status r = (if a > 10000 \<or> count_window D' uid t > 5 then FLAGGED else OK)"
proof -
  let ?G = "\<lambda>r. r\<lparr>user_id := uid, amount := a, location := loc, txn_time := t, txn_type := ty,
                         status := (if a > 10000 \<or> count_window D' uid t > 5 then FLAGGED else OK)\<rparr>"
  from assms(3) have "r \<in> set (map (\<lambda>x. if transaction_id x = tid then ?G x else x) (transactions D))"
    by (simp only: update_transactions[OF assms(1,2)])
  from map_update_member[OF this _ assms(4)]
  obtain x where "r = ?G x" by auto
  then show ?thesis by simp
qed

text \<open>
  Claim C1, as amended. After a successful create (when no high-amount alert referenced the
  \<open>transaction_id\<close> before) and after a successful update, the transaction has a high-amount
  alert if and only if its amount exceeds 10000: then it has exactly one, with the amount
  and the reason of the rule, and every stored transaction of that \<open>transaction_id\<close> is
  FLAGGED. The reason contains the text of the amount (as SQLite writes the REAL on create,
  as Python writes the float on update) and the threshold as \<^verbatim>\<open>10,000\<close>.
\<close>

theorem high_amount_rule:
  "(add_transaction e D (POST f) = (fl, resp, D') \<and> (added_ok, ''success'') \<in> set fl \<and>
    form_amount f = Parsed a \<and> high_alerts D (form_transaction_id f) = []
      \<longrightarrow> high_amount_outcome (sql_text e a) a D' (form_transaction_id f)) \<and>
   (update_transaction e D tid (POST f) = (fl, resp, D') \<and> (updated_ok, ''success'') \<in> set fl \<and>
    form_amount f = Parsed a
      \<longrightarrow> high_amount_outcome (py_str e a) a D' tid) \<and>
   sublist shown (high_reason shown) \<and> sublist ''10,000'' (high_reason shown)"
proof (intro conjI impI)
  assume h: "add_transaction e D (POST f) = (fl, resp, D') \<and> (added_ok, ''success'') \<in> set fl \<and>
    form_amount f = Parsed a \<and> high_alerts D (form_transaction_id f) = []"
  let ?tid = "form_transaction_id f"
  let ?uid = "form_user_id f"
  let ?t = "case form_txn_time f of None \<Rightarrow> py_now e | Some t \<Rightarrow> t"
  from h add_success[of e D f fl resp D'] have
    i: "insert_txn e ?tid ?uid a (form_location f) ?t (form_txn_type f) D = Inr D'"
    by auto
  from insert_new_alerts[OF i] obtain new where
    n: "fraud_alerts D' = fraud_alerts D @ new" "\<forall>x \<in> set new. fa_transaction_id x = ?tid"
      "map (\<lambda>x. (fa_amount x, fa_reason x)) (filter is_high_alert new) =
             (if a > 10000 then [(a, high_reason (sql_text e a))] else [])"
    by blast
  have "high_alerts D' ?tid = high_alerts D ?tid @ filter is_high_alert new"
    by (simp add: high_alerts_def alerts_for_def n(1) filter_all_eq[OF n(2)])
  with h have ha: "high_alerts D' ?tid = filter is_high_alert new" by simp
  show "high_amount_outcome (sql_text e a) a D' ?tid"
  proof (cases "a > 10000")
    case True
    then have "\<forall>r \<in> set (transactions D'). transaction_id r = ?tid \<longrightarrow> status r = FLAGGED"
      using insert_txn_flagged[OF i] by blast
    with True n(3) show ?thesis by (simp add: high_amount_outcome_def ha)
  next
    case False
    with n(3) show ?thesis by (simp add: high_amount_outcome_def ha)
  qed
next
  assume h: "update_transaction e D tid (POST f) = (fl, resp, D') \<and> (updated_ok, ''success'') \<in> set fl \<and>
    form_amount f = Parsed a"
  from h update_transaction_success[of e D tid f fl resp D'] obtain t where
    t: "form_txn_time f = Some t" by auto
  from h t update_success[of e D tid f fl resp D' a t] obtain w where
    u: "update_txn tid (form_user_id f) a (form_location f) t (form_txn_type f) D = Inr w"
    and r: "recheck e tid (form_user_id f) a t w = Inr D'" by blast
  from update_new_alerts[OF u r] obtain new where
    n: "fraud_alerts D' = filter (\<lambda>x. fa_transaction_id x \<noteq> tid) (fraud_alerts D) @ new"
      "\<forall>x \<in> set new. fa_transaction_id x = tid"
      "map (\<lambda>x. (fa_amount x, fa_reason x)) (filter is_high_alert new) =
             (if a > 10000 then [(a, high_reason (py_str e a))] else [])"
    by blast
  have "filter (\<lambda>x. fa_transaction_id x = tid) (filter (\<lambda>x. fa_transaction_id x \<noteq> tid) (fraud_alerts D)) = []"
    by (simp add: filter_empty_conv)
  then have ha: "high_alerts D' tid = filter is_high_alert new"
    by (simp add: high_alerts_def alerts_for_def n(1) filter_all_eq[OF n(2)])
  show "high_amount_outcome (py_str e a) a D' tid"
  proof (cases "a > 10000")
    case True
    then have "\<forall>r \<in> set (transactions D'). transaction_id r = tid \<longrightarrow> status r = FLAGGED"
      using update_row[OF u r] by simp
    with True n(3) show ?thesis by (simp add: high_amount_outcome_def ha)
  next
    case False
    with n(3) show ?thesis by (simp add: high_amount_outcome_def ha)
  qed
qed (rule high_reason_contains(1), rule high_reason_contains(2))

text \<open>
  Scenario A (create with amount 12000) and scenario C (update to amount 500).
\<close>

theorem high_amount_rule_witness:
  "high_amount_outcome ''12000.0'' 12000 store_a ''TXN001'' \<and>
   high_amount_outcome ''500.0'' 500 store_c ''TXN001'' \<and>
   map fa_reason (high_alerts store_a ''TXN001'') = [high_reason ''12000.0''] \<and>
   map status (transactions store_a) = [FLAGGED] \<and>
   high_alerts store_c ''TXN001'' = [] \<and>
   sublist ''12000'' (high_reason ''12000.0'') \<and> sublist ''10,000'' (high_reason ''12000.0'')"
proof -
  have a: "add_transaction quiet_env empty_db (POST (txn_form ''TXN001'' ''USER001'' 12000 0)) =
     ([(added_ok, ''success'')], Redirect_view_transactions, store_a)"
    by (simp add: scenario_a store_a_eq)
  have c: "update_transaction quiet_env store_a ''TXN001'' (POST (txn_form ''TXN001'' ''USER001'' 500 0)) =
             ([(updated_ok, ''success'')], Redirect_view_transactions, store_c)"
    by (simp add: scenario_c store_c_eq)
  have t: "sql_text quiet_env 12000 = ''12000.0''" "py_str quiet_env 500 = ''500.0''"
    by (simp_all add: quiet_env_def whole_text_def digit_char_def)
  have f: "form_amount (txn_form ''TXN001'' ''USER001'' 12000 0) = Parsed 12000"
    "form_transaction_id (txn_form ''TXN001'' ''USER001'' 12000 0) = ''TXN001''"
    "form_amount (txn_form ''TXN001'' ''USER001'' 500 0) = Parsed 500"
    by (simp_all add: txn_form_def)
  have n: "high_alerts empty_db ''TXN001'' = []"
    by (simp add: high_alerts_def alerts_for_def empty_db_def)
  have s: "sublist ''12000'' (high_reason ''12000.0'')"
    by (simp add: high_reason_def rupee_def sublist_Cons_right)
  from high_amount_rule[where e=quiet_env and D=empty_db and f="txn_form ''TXN001'' ''USER001'' 12000 0"
      and fl="[(added_ok, ''success'')]" and resp=Redirect_view_transactions and D'=store_a
      and a="12000" and tid="''TXN001''" and shown="''12000.0''"] a f n t
  have 1: "high_amount_outcome ''12000.0'' 12000 store_a ''TXN001''"
    and 3: "sublist ''10,000'' (high_reason ''12000.0'')" by simp_all
  from high_amount_rule[where e=quiet_env and D=store_a and f="txn_form ''TXN001'' ''USER001'' 500 0"
      and fl="[(updated_ok, ''success'')]" and resp=Redirect_view_transactions and D'=store_c
      and a="500" and tid="''TXN001''" and shown="''12000.0''"] c f t
  have 2: "high_amount_outcome ''500.0'' 500 store_c ''TXN001''" by simp
  have 4: "map fa_reason (high_alerts store_a ''TXN001'') = [high_reason ''12000.0'']"
    "map status (transactions store_a) = [FLAGGED]" "high_alerts store_c ''TXN001'' = []"
    by (simp_all add: high_alerts_def alerts_for_def store_a_eq store_c_eq is_high_alert_def high_reason_def)
  from 1 2 3 4 s show ?thesis by simp
qed

text \<open>
  Claim C1 as stated fails in scenario A: the create succeeds and its one alert has a reason
  in which the text \<^verbatim>\<open>10000\<close> does not occur: the threshold is written \<^verbatim>\<open>10,000\<close>.
\<close>

theorem reason_lacks_10000_counterexample:
  "fst (add_transaction quiet_env empty_db (POST (txn_form ''TXN001'' ''USER001'' 12000 0))) =
     [(added_ok, ''success'')] \<and>
   map fa_reason (fraud_alerts store_a) = [high_reason ''12000.0''] \<and>
   \<not> sublist ''10000'' (high_reason ''12000.0'')"
  by (simp add: scenario_a store_a_eq) (simp add: high_reason_def rupee_def sublist_Cons_right)

end
